theory Spec2Isabelle
  imports Main "HOL-Library.DAList"
begin

section \<open>JavaScript values and the calls the program makes\<close>

text \<open>
  The WebSocket layer of the repository is the code printed in README.md
  (websocket-manager.js, websocket.js, messageHandlers.js); the HTTP layer is
  organisation.controller.ts and organisation.service.ts.

  A message payload is whatever JSON.parse produced (the body schema declares
  \<open>data: t.Any()\<close>), plus \<open>undefined\<close>, which reading an absent property yields.
  No function of the program computes with numbers, so their representation \<open>'n\<close>
  is left open.  An object is its list of own properties.
\<close>

datatype 'n jsval =
    Undefined
  | Null
  | Boolean bool
  | Number 'n
  | String string
  | Array "'n jsval list"
  | Object "(string \<times> 'n jsval) list"

text \<open>A socket handle is an object; only its identity matters here.\<close>

datatype ws = WebSocket nat

type_synonym conn_id = string

text \<open>The four calls of messageHandlers.js into userService and productService.\<close>

datatype 'n service_call =
    UpdateUser string "'n jsval"
  | CreateUser string "'n jsval"
  | UpdateProduct string "'n jsval"
  | CreateProduct string "'n jsval"

text \<open>
  Every call the code makes to something outside itself, in the order it makes it:
  \<open>JSON.stringify(v)\<close>, \<open>ws.send(s)\<close> with a string, \<open>ws.send(o)\<close> with an object (the
  welcome message of \<open>open\<close>), \<open>console.log(a, b, ...)\<close> and the service calls.
\<close>

datatype 'n effect =
    Stringify "'n jsval"
  | WsSend ws string
  | WsSendObject ws "'n jsval"
  | ConsoleLog "string list"
  | Service "'n service_call"

datatype 'n error =
    TypeError
  | SendFailed ws
  | ServiceFailed "'n service_call"

text \<open>
  What the program does not define is a parameter: the text \<open>JSON.stringify\<close> returns for
  a value, whether \<open>send\<close> on a given socket throws (a closed socket, for one), and
  whether a service call throws.
\<close>

record 'n env =
  JSON_stringify :: "'n jsval \<Rightarrow> string"
  send_throws :: "ws \<Rightarrow> bool"
  service_throws :: "'n service_call \<Rightarrow> bool"

text \<open>
  The state: \<open>connections\<close> is the module-level \<open>new Map()\<close> of websocket-manager.js, an
  association list with unique keys in insertion order (the order \<open>Map.forEach\<close>
  visits); \<open>trace\<close> is the calls made so far.
\<close>

record 'n world =
  connections :: "(conn_id, ws) alist"
  trace :: "'n effect list"

type_synonym ('n, 'a) prog = "'n world \<Rightarrow> ('n error + 'a) \<times> 'n world"

definition emit :: "'n effect \<Rightarrow> 'n world \<Rightarrow> 'n world" where
  "emit e w = w\<lparr>trace := trace w @ [e]\<rparr>"

section \<open>websocket-manager.js\<close>

text \<open>\<open>connections.set(id, ws)\<close>: an existing key keeps its place and takes the new value,
  a new key goes to the end.\<close>

definition addConnection :: "conn_id \<Rightarrow> ws \<Rightarrow> ('n, unit) prog" where
  "addConnection cid s w = (Inr (), w\<lparr>connections := DAList.update cid s (connections w)\<rparr>)"

text \<open>\<open>connections.delete(id)\<close>\<close>

definition removeConnection :: "conn_id \<Rightarrow> ('n, unit) prog" where
  "removeConnection cid w = (Inr (), w\<lparr>connections := DAList.delete cid (connections w)\<rparr>)"

text \<open>\<open>connections.get(id)\<close>: \<open>None\<close> is JavaScript's \<open>undefined\<close>.\<close>

definition getConnection :: "conn_id \<Rightarrow> ('n, ws option) prog" where
  "getConnection cid w = (Inr (DAList.lookup (connections w) cid), w)"

text \<open>\<open>ws.send(JSON.stringify(message))\<close>: the argument is evaluated, then \<open>send\<close> is called;
  both calls are on the trace also when \<open>send\<close> throws.\<close>

definition send_stringified :: "'n env \<Rightarrow> ws \<Rightarrow> 'n jsval \<Rightarrow> ('n, unit) prog" where
  "send_stringified env s message w =
     (let text = JSON_stringify env message;
          w1 = emit (Stringify message) w;
          w2 = emit (WsSend s text) w1
      in if send_throws env s then (Inl (SendFailed s), w2) else (Inr (), w2))"

text \<open>A stored socket is an object, hence truthy: \<open>if (ws)\<close> tests presence.\<close>

definition sendToConnection :: "'n env \<Rightarrow> conn_id \<Rightarrow> 'n jsval \<Rightarrow> ('n, unit) prog" where
  "sendToConnection env cid message w =
     (case getConnection cid w of
        (Inl e, w') \<Rightarrow> (Inl e, w')
      | (Inr None, w') \<Rightarrow> (Inr (), emit (ConsoleLog [''No connection found for id: '' @ cid]) w')
      | (Inr (Some s), w') \<Rightarrow> send_stringified env s message w')"

text \<open>\<open>connections.forEach(ws => ws.send(JSON.stringify(message)))\<close>: the callback runs on
  each entry in insertion order; an exception thrown by it ends the iteration and leaves
  \<open>forEach\<close>.\<close>

fun forEach_send :: "'n env \<Rightarrow> 'n jsval \<Rightarrow> (conn_id \<times> ws) list \<Rightarrow> ('n, unit) prog" where
  "forEach_send env message [] w = (Inr (), w)"
| "forEach_send env message ((cid, s) # rest) w =
     (case send_stringified env s message w of
        (Inl e, w') \<Rightarrow> (Inl e, w')
      | (Inr _, w') \<Rightarrow> forEach_send env message rest w')"

definition broadcast :: "'n env \<Rightarrow> 'n jsval \<Rightarrow> ('n, unit) prog" where
  "broadcast env message w = forEach_send env message (DAList.impl_of (connections w)) w"

section \<open>messageHandlers.js\<close>

text \<open>Statements in sequence: the second runs only if the first did not throw.\<close>

definition and_then :: "('n, 'a) prog \<Rightarrow> ('a \<Rightarrow> ('n, 'b) prog) \<Rightarrow> ('n, 'b) prog" where
  "and_then m f w = (case m w of (Inl e, w') \<Rightarrow> (Inl e, w') | (Inr x, w') \<Rightarrow> f x w')"

definition evaluated :: "'n error + 'a \<Rightarrow> ('n, 'a) prog" where
  "evaluated r w = (r, w)"

text \<open>
  \<open>data.action\<close> and \<open>data.payload\<close>: reading a property of \<open>null\<close> or \<open>undefined\<close> throws a
  TypeError; an object gives its own property or \<open>undefined\<close>; a boolean, number, string
  or array gives \<open>undefined\<close> for these two names, which no built-in prototype defines.
\<close>

fun get_prop :: "'n jsval \<Rightarrow> string \<Rightarrow> 'n error + 'n jsval" where
  "get_prop Undefined k = Inl TypeError"
| "get_prop Null k = Inl TypeError"
| "get_prop (Object kvs) k = Inr (case map_of kvs k of None \<Rightarrow> Undefined | Some v \<Rightarrow> v)"
| "get_prop v k = Inr Undefined"

text \<open>A call such as \<open>userService.createUser(id, data.payload)\<close>; its result is not used.\<close>

definition call_service :: "'n env \<Rightarrow> 'n service_call \<Rightarrow> ('n, unit) prog" where
  "call_service env c w =
     (let w1 = emit (Service c) w
      in if service_throws env c then (Inl (ServiceFailed c), w1) else (Inr (), w1))"

text \<open>The object literal \<open>{type, id, data: {action, payload}}\<close> both handlers broadcast.\<close>

definition event_envelope :: "string \<Rightarrow> string \<Rightarrow> string \<Rightarrow> 'n jsval \<Rightarrow> 'n jsval" where
  "event_envelope ty mid action payload =
     Object [(''type'', String ty), (''id'', String mid),
             (''data'', Object [(''action'', String action), (''payload'', payload)])]"

definition handleUserMessage :: "'n env \<Rightarrow> string \<Rightarrow> 'n jsval \<Rightarrow> ('n, unit) prog" where
  "handleUserMessage env mid data =
     and_then (evaluated (get_prop data ''action'')) (\<lambda>action.
     and_then
       (if action = String ''update'' then
          and_then (evaluated (get_prop data ''payload'')) (\<lambda>payload.
            call_service env (UpdateUser mid payload))
        else if action = String ''create'' then
          and_then (evaluated (get_prop data ''payload'')) (\<lambda>payload.
            call_service env (CreateUser mid payload))
        else evaluated (Inr ())) (\<lambda>_.
     and_then (evaluated (get_prop data ''payload'')) (\<lambda>payload.
       broadcast env (event_envelope ''user'' mid ''user_updated'' payload))))"

definition handleProductMessage :: "'n env \<Rightarrow> string \<Rightarrow> 'n jsval \<Rightarrow> ('n, unit) prog" where
  "handleProductMessage env mid data =
     and_then (evaluated (get_prop data ''action'')) (\<lambda>action.
     and_then
       (if action = String ''update'' then
          and_then (evaluated (get_prop data ''payload'')) (\<lambda>payload.
            call_service env (UpdateProduct mid payload))
        else if action = String ''create'' then
          and_then (evaluated (get_prop data ''payload'')) (\<lambda>payload.
            call_service env (CreateProduct mid payload))
        else evaluated (Inr ())) (\<lambda>_.
     and_then (evaluated (get_prop data ''payload'')) (\<lambda>payload.
       broadcast env (event_envelope ''product'' mid ''product_updated'' payload))))"

section \<open>websocket.js\<close>

text \<open>An inbound message that passed the route's body schema
  \<open>{type: t.String(), id: t.String(), data: t.Any()}\<close>.\<close>

record 'n envelope =
  msg_type :: string
  msg_id :: string
  msg_data :: "'n jsval"

text \<open>The \<open>message(ws, {type, id, data})\<close> handler of the \<open>/ws\<close> route; it does not use
  \<open>ws\<close>.\<close>

definition message :: "'n env \<Rightarrow> ws \<Rightarrow> 'n envelope \<Rightarrow> ('n, unit) prog" where
  "message env s e =
     (if msg_type e = ''user'' then handleUserMessage env (msg_id e) (msg_data e)
      else if msg_type e = ''product'' then handleProductMessage env (msg_id e) (msg_data e)
      else (\<lambda>w. (Inr (), emit (ConsoleLog [''Unknown message type:'', msg_type e]) w)))"

text \<open>The \<open>open(ws)\<close> and \<open>close(ws)\<close> handlers of the route. Neither touches the map.\<close>

definition open_ws :: "'n env \<Rightarrow> ws \<Rightarrow> ('n, unit) prog" where
  "open_ws env s w =
     (let w1 = emit (ConsoleLog [''Client connected'']) w;
          w2 = emit (WsSendObject s
                 (Object [(''type'', String ''info''),
                          (''message'', String ''Connection established'')])) w1
      in if send_throws env s then (Inl (SendFailed s), w2) else (Inr (), w2))"

definition close_ws :: "ws \<Rightarrow> ('n, unit) prog" where
  "close_ws s w = (Inr (), emit (ConsoleLog [''Client disconnected'']) w)"

section \<open>Observations on a run\<close>

text \<open>What one \<open>forEach\<close> callback does for one entry, and a whole pass over a list of entries
  none of whose sends throws.\<close>

definition per_recipient :: "'n env \<Rightarrow> 'n jsval \<Rightarrow> (conn_id \<times> ws) list \<Rightarrow> 'n effect list" where
  "per_recipient env msg entries =
     concat (map (\<lambda>(cid, s). [Stringify msg, WsSend s (JSON_stringify env msg)]) entries)"

text \<open>The texts a socket was sent, and the number of \<open>JSON.stringify\<close> calls, on a trace.\<close>

definition sent_to :: "ws \<Rightarrow> 'n effect list \<Rightarrow> string list" where
  "sent_to s tr = concat (map (\<lambda>e. case e of WsSend t txt \<Rightarrow> (if t = s then [txt] else []) | _ \<Rightarrow> []) tr)"

definition stringify_count :: "'n effect list \<Rightarrow> nat" where
  "stringify_count tr = length (filter (\<lambda>e. case e of Stringify _ \<Rightarrow> True | _ \<Rightarrow> False) tr)"

text \<open>The state of a freshly loaded module: no connection, nothing called yet.\<close>

definition initial :: "'n world" where
  "initial = \<lparr>connections = DAList.empty, trace = []\<rparr>"

text \<open>
  A concrete \<open>JSON.stringify\<close> for running the code on examples. It agrees with
  JavaScript on objects, arrays, booleans, \<open>null\<close>, finite numbers given by their decimal
  text, and strings of printable ASCII (only the quote and the backslash are escaped):
  a property whose value is \<open>undefined\<close> is left out of an object and \<open>undefined\<close> in an
  array is written \<open>null\<close>. Control characters in strings, non-finite numbers and
  \<open>undefined\<close> at top level are outside its range; the examples below use none of them.
\<close>

definition quoted :: "string \<Rightarrow> string" where
  "quoted s = ''\"'' @ concat (map (\<lambda>c. if c = CHR ''\"'' \<or> c = CHR 0x5C then [CHR 0x5C, c] else [c]) s) @ ''\"''"

fun commas :: "string list \<Rightarrow> string" where
  "commas [] = []"
| "commas [x] = x"
| "commas (x # y # zs) = x @ '','' @ commas (y # zs)"

fun stringify_ascii :: "string jsval \<Rightarrow> string" where
  "stringify_ascii Undefined = ''null''"
| "stringify_ascii Null = ''null''"
| "stringify_ascii (Boolean b) = (if b then ''true'' else ''false'')"
| "stringify_ascii (Number n) = n"
| "stringify_ascii (String s) = quoted s"
| "stringify_ascii (Array vs) = ''['' @ commas (map stringify_ascii vs) @ '']''"
| "stringify_ascii (Object kvs) =
     ''{'' @ commas (map (\<lambda>kv. quoted (fst kv) @ '':'' @ stringify_ascii (snd kv))
                      (filter (\<lambda>kv. snd kv \<noteq> Undefined) kvs)) @ ''}''"

text \<open>An environment where nothing throws, and one where the socket \<open>bad\<close> is closed.\<close>

definition healthy :: "string env" where
  "healthy = \<lparr>JSON_stringify = stringify_ascii, send_throws = (\<lambda>s. False),
              service_throws = (\<lambda>c. False)\<rparr>"

definition closed_socket :: "ws \<Rightarrow> string env" where
  "closed_socket bad = healthy\<lparr>send_throws := (\<lambda>s. s = bad)\<rparr>"

definition registry_of :: "(conn_id \<times> ws) list \<Rightarrow> string world" where
  "registry_of entries =
     fold (\<lambda>(cid, s) w. snd (addConnection cid s w)) entries initial"

section \<open>organisation.service.ts\<close>

text \<open>
  \<open>OrganizationModel\<close> is \<open>mongoose.model('organisations', organizationSchema)\<close>: a library
  object. The service awaits two of its calls; each either resolves with a value or
  rejects with an error, and which it does for a given id is a parameter.
  \<open>findById\<close> resolves with the document or \<open>null\<close> (\<open>None\<close>); \<open>deleteOne\<close> resolves with
  the driver's result object.
\<close>

datatype db_error = CastError string | DriverError string

record delete_result =
  acknowledged :: bool
  deletedCount :: nat

record 'doc organization_model =
  findById :: "string \<Rightarrow> db_error + 'doc option"
  deleteOne :: "string \<Rightarrow> db_error + delete_result"

text \<open>\<open>try { let result = await OrganizationModel.findById(id); return result; }
  catch (error) { return null; }\<close>\<close>

definition getOrganizationById ::
  "'doc organization_model \<Rightarrow> string \<Rightarrow> db_error + 'doc option" where
  "getOrganizationById model oid =
     (case findById model oid of
        Inr result \<Rightarrow> Inr result
      | Inl error \<Rightarrow> Inr None)"

text \<open>\<open>try { let result = await OrganizationModel.deleteOne({_id:id}); return result; }
  catch (error) { return null; }\<close>\<close>

definition deleteOrganizationById ::
  "'doc organization_model \<Rightarrow> string \<Rightarrow> db_error + delete_result option" where
  "deleteOrganizationById model oid =
     (case deleteOne model oid of
        Inr result \<Rightarrow> Inr (Some result)
      | Inl error \<Rightarrow> Inr None)"

section \<open>organisation.controller.ts\<close>

text \<open>
  What a route handler returns, by shape: a bare string, the object \<open>{message}\<close>, a
  document, or the object \<open>{message, data}\<close>. \<open>status\<close> is \<open>set.status\<close> as the handler
  leaves it, 200 unless assigned.
\<close>

datatype 'doc reply =
    Text string
  | MessageObject string
  | Document 'doc
  | MessageData string delete_result

record 'doc response =
  status :: nat
  body :: "'doc reply"

text \<open>\<open>.get("/:id", ...)\<close>: a document is an object, hence truthy; \<open>!user\<close> holds for
  \<open>null\<close> only.\<close>

definition get_organization_by_id ::
  "'doc organization_model \<Rightarrow> string \<Rightarrow> db_error + 'doc response" where
  "get_organization_by_id model params_id =
     (case getOrganizationById model params_id of
        Inl e \<Rightarrow> Inl e
      | Inr None \<Rightarrow> Inr \<lparr>status = 400, body = MessageObject ''Id not found''\<rparr>
      | Inr (Some user) \<Rightarrow> Inr \<lparr>status = 200, body = Document user\<rparr>)"

text \<open>\<open>.post("/delete", ...)\<close> with the validated body \<open>{id: string}\<close>: the result object
  of \<open>deleteOne\<close> is truthy whatever its \<open>deletedCount\<close>.\<close>

definition post_organization_delete ::
  "'doc organization_model \<Rightarrow> string \<Rightarrow> db_error + 'doc response" where
  "post_organization_delete model body_id =
     (case deleteOrganizationById model body_id of
        Inl e \<Rightarrow> Inl e
      | Inr None \<Rightarrow> Inr \<lparr>status = 400, body = Text ''Id not found''\<rparr>
      | Inr (Some result) \<Rightarrow> Inr \<lparr>status = 200, body = MessageData ''Record Deleted'' result\<rparr>)"

text \<open>
  Mongoose over a collection, for running the routes on examples: an id is cast to an
  ObjectId, which a string of 24 hexadecimal digits passes; a string that does not pass
  (here: any other string, as in Mongoose 6 and later) rejects the query with a
  CastError; \<open>findById\<close> resolves with the document stored under the id or \<open>null\<close>;
  \<open>deleteOne\<close> resolves with the number of documents it removed. Ids are compared as
  written (the examples store and ask for lower-case ids), and it answers one request:
  the collection after a delete is not represented.
\<close>

definition is_object_id :: "string \<Rightarrow> bool" where
  "is_object_id s \<longleftrightarrow> length s = 24 \<and> list_all (\<lambda>c. c \<in> set ''0123456789abcdefABCDEF'') s"

definition mongoose_over :: "(string \<times> 'doc) list \<Rightarrow> 'doc organization_model" where
  "mongoose_over collection =
     \<lparr>findById = (\<lambda>oid. if is_object_id oid then Inr (map_of collection oid)
                        else Inl (CastError oid)),
      deleteOne = (\<lambda>oid. if is_object_id oid
                         then Inr \<lparr>acknowledged = True,
                                   deletedCount = (case map_of collection oid of None \<Rightarrow> 0 | Some d \<Rightarrow> 1)\<rparr>
                         else Inl (CastError oid))\<rparr>"

text \<open>The messages of the specification's scenarios.\<close>

definition info_hi :: "'n jsval" where
  "info_hi = Object [(''type'', String ''info''), (''message'', String ''hi'')]"

definition ann :: "'n jsval" where
  "ann = Object [(''name'', String ''Ann'')]"

definition create_ann :: "'n envelope" where
  "create_ann = \<lparr>msg_type = ''user'', msg_id = ''42'',
                 msg_data = Object [(''action'', String ''create''), (''payload'', ann)]\<rparr>"

definition user_updated_ann :: "'n jsval" where
  "user_updated_ann =
     Object [(''type'', String ''user''), (''id'', String ''42''),
             (''data'', Object [(''action'', String ''user_updated''), (''payload'', ann)])]"

section \<open>Lemmas on sending\<close>

lemmas run_defs = registry_of_def initial_def addConnection_def update.rep_eq empty.rep_eq
  broadcast_def send_stringified_def emit_def Let_def healthy_def closed_socket_def
  sent_to_def stringify_count_def per_recipient_def

lemma send_stringified_ok:
  "\<not> send_throws env s \<Longrightarrow>
   send_stringified env s m w =
     (Inr (), w\<lparr>trace := trace w @ [Stringify m, WsSend s (JSON_stringify env m)]\<rparr>)"
  by (simp add: send_stringified_def emit_def Let_def)

lemma send_stringified_throws:
  "send_throws env s \<Longrightarrow>
   send_stringified env s m w =
     (Inl (SendFailed s), w\<lparr>trace := trace w @ [Stringify m, WsSend s (JSON_stringify env m)]\<rparr>)"
  by (simp add: send_stringified_def emit_def Let_def)

lemma per_recipient_Nil: "per_recipient env m [] = []"
  by (simp add: per_recipient_def)

lemma per_recipient_Cons:
  "per_recipient env m ((cid, s) # rest) =
     Stringify m # WsSend s (JSON_stringify env m) # per_recipient env m rest"
  by (simp add: per_recipient_def)

lemma sent_to_per_recipient:
  "sent_to s (per_recipient env m entries) =
     replicate (length (filter (\<lambda>e. snd e = s) entries)) (JSON_stringify env m)"
  by (induction entries) (auto simp: sent_to_def per_recipient_def)

lemma stringify_count_per_recipient:
  "stringify_count (per_recipient env m entries) = length entries"
  by (induction entries) (auto simp: stringify_count_def per_recipient_def)

lemma forEach_send_ok:
  "\<forall>s \<in> snd ` set entries. \<not> send_throws env s \<Longrightarrow>
   forEach_send env m entries w = (Inr (), w\<lparr>trace := trace w @ per_recipient env m entries\<rparr>)"
proof (induction entries arbitrary: w)
  case Nil
  show ?case by (simp add: per_recipient_Nil)
next
  case (Cons e rest)
  obtain cid s where e: "e = (cid, s)" by (cases e)
  from Cons.prems e have ok: "\<not> send_throws env s"
    and rest: "\<forall>t \<in> snd ` set rest. \<not> send_throws env t"
    by auto
  show ?case
    by (simp add: e send_stringified_ok [OF ok] Cons.IH [OF rest] per_recipient_Cons)
qed

lemma forEach_send_stops:
  "\<forall>t \<in> snd ` set before. \<not> send_throws env t \<Longrightarrow> send_throws env s \<Longrightarrow>
   forEach_send env m (before @ (cid, s) # after) w =
     (Inl (SendFailed s), w\<lparr>trace := trace w @ per_recipient env m (before @ [(cid, s)])\<rparr>)"
proof (induction before arbitrary: w)
  case Nil
  then show ?case
    by (simp add: send_stringified_throws per_recipient_Cons per_recipient_Nil)
next
  case (Cons e rest)
  obtain c t where e: "e = (c, t)" by (cases e)
  from Cons.prems e have ok: "\<not> send_throws env t"
    and rest: "\<forall>t \<in> snd ` set rest. \<not> send_throws env t"
    by auto
  show ?case
    by (simp add: e send_stringified_ok [OF ok] Cons.IH [OF rest Cons.prems(2)] per_recipient_Cons)
qed

lemma delete_absent: "DAList.lookup r cid = None \<Longrightarrow> DAList.delete cid r = r"
  by transfer (simp add: map_of_eq_None_iff)

lemma delete_twice: "DAList.delete cid (DAList.delete cid r) = DAList.delete cid r"
  by transfer (rule AList.delete_idem)

lemma handleUserMessage_create:
  assumes "\<not> service_throws env (CreateUser mid p)"
  shows "handleUserMessage env mid (Object [(''action'', String ''create''), (''payload'', p)]) w =
           broadcast env (event_envelope ''user'' mid ''user_updated'' p)
             (emit (Service (CreateUser mid p)) w)"
  using assms
  by (simp add: handleUserMessage_def and_then_def evaluated_def call_service_def Let_def)

section \<open>The dispatcher\<close>

text \<open>
  C1. The \<open>message\<close> handler does exactly what \<open>handleUserMessage\<close> does when the type is
  "user" and exactly what \<open>handleProductMessage\<close> does when it is "product"; for any other
  type it calls no handler, writes one log line and returns normally.
\<close>

theorem message_dispatch:
  fixes w :: "'n world"
  shows "(msg_type e = ''user'' \<longrightarrow>
            message env s e w = handleUserMessage env (msg_id e) (msg_data e) w)
       \<and> (msg_type e = ''product'' \<longrightarrow>
            message env s e w = handleProductMessage env (msg_id e) (msg_data e) w)
       \<and> (msg_type e \<noteq> ''user'' \<and> msg_type e \<noteq> ''product'' \<longrightarrow>
            message env s e w =
              (Inr (), w\<lparr>trace := trace w @ [ConsoleLog [''Unknown message type:'', msg_type e]]\<rparr>))"
  by (simp add: message_def emit_def)

theorem message_dispatch_witness:
  "message healthy (WebSocket 1) create_ann initial =
     handleUserMessage healthy ''42'' (msg_data create_ann) initial
 \<and> message healthy (WebSocket 1) (create_ann\<lparr>msg_type := ''product''\<rparr>) initial =
     handleProductMessage healthy ''42'' (msg_data create_ann) initial
 \<and> message healthy (WebSocket 1) (create_ann\<lparr>msg_type := ''chat''\<rparr>) initial =
     (Inr (), initial\<lparr>trace := [ConsoleLog [''Unknown message type:'', ''chat'']]\<rparr>)"
  using message_dispatch [of create_ann healthy "WebSocket 1" initial]
    message_dispatch [of "create_ann\<lparr>msg_type := ''product''\<rparr>" healthy "WebSocket 1" initial]
    message_dispatch [of "create_ann\<lparr>msg_type := ''chat''\<rparr>" healthy "WebSocket 1" initial]
  by (simp add: create_ann_def initial_def)

section \<open>Broadcast\<close>

text \<open>
  C2, as the code has it. Provided no \<open>send\<close> throws, \<open>broadcast\<close> returns normally having
  called \<open>JSON.stringify\<close> once for each registered connection (the call sits in the
  \<open>forEach\<close> callback; it is not made once for the broadcast) and having made, for each
  entry of the map in insertion order, one \<open>send\<close> of the same text
  \<open>JSON.stringify(message)\<close>; a socket receives that text once for each id it is registered
  under, and the ids of the map are distinct.
\<close>

theorem broadcast_writes_every_entry:
  fixes w :: "'n world"
  assumes "\<forall>s \<in> snd ` set (DAList.impl_of (connections w)). \<not> send_throws env s"
  shows "broadcast env m w =
           (Inr (), w\<lparr>trace := trace w @ per_recipient env m (DAList.impl_of (connections w))\<rparr>)
       \<and> stringify_count (per_recipient env m (DAList.impl_of (connections w))) =
           length (DAList.impl_of (connections w))
       \<and> sent_to s (per_recipient env m (DAList.impl_of (connections w))) =
           replicate (length (filter (\<lambda>e. snd e = s) (DAList.impl_of (connections w))))
             (JSON_stringify env m)
       \<and> distinct (map fst (DAList.impl_of (connections w)))"
  using forEach_send_ok [OF assms]
  by (simp add: broadcast_def sent_to_per_recipient stringify_count_per_recipient)

theorem broadcast_writes_every_entry_witness:
  "\<not> send_throws healthy (WebSocket 1) \<and> \<not> send_throws healthy (WebSocket 2)
 \<and> broadcast healthy info_hi (registry_of [(''A'', WebSocket 1), (''B'', WebSocket 2)]) =
     (Inr (), (registry_of [(''A'', WebSocket 1), (''B'', WebSocket 2)])
        \<lparr>trace := [Stringify info_hi, WsSend (WebSocket 1) (stringify_ascii info_hi),
                   Stringify info_hi, WsSend (WebSocket 2) (stringify_ascii info_hi)]\<rparr>)"
proof -
  have h: "\<forall>s \<in> snd ` set (DAList.impl_of (connections
        (registry_of [(''A'', WebSocket 1), (''B'', WebSocket 2)]))). \<not> send_throws healthy s"
    by (simp add: healthy_def)
  show ?thesis
    using broadcast_writes_every_entry [OF h, of info_hi "WebSocket 1"]
    by (simp add: registry_of_def initial_def addConnection_def update.rep_eq empty.rep_eq
          per_recipient_def healthy_def)
qed

text \<open>
  C2 as stated fails: with A and B registered and both sockets healthy the message is
  serialized twice; and with A, B, C registered and B's socket closed, C is registered
  and receives nothing.
\<close>

theorem broadcast_serializes_once_counterexample:
  "stringify_count (trace (snd (broadcast healthy info_hi
      (registry_of [(''A'', WebSocket 1), (''B'', WebSocket 2)])))) = 2
 \<and> stringify_count (trace (snd (broadcast healthy info_hi
      (registry_of [(''A'', WebSocket 1), (''B'', WebSocket 2)])))) \<noteq> 1
 \<and> sent_to (WebSocket 3) (trace (snd (broadcast (closed_socket (WebSocket 2)) info_hi
      (registry_of [(''A'', WebSocket 1), (''B'', WebSocket 2), (''C'', WebSocket 3)])))) = []"
  by (simp add: run_defs)

text \<open>
  C3, as the code has it. Nothing in \<open>broadcast\<close> catches: when \<open>send\<close> throws for an
  entry and for none before it, \<open>broadcast\<close> ends with that exception, having written the
  entries before it and attempted the throwing one; no socket outside those receives
  anything.
\<close>

theorem broadcast_stops_at_throwing_send:
  fixes w :: "'n world"
  assumes "DAList.impl_of (connections w) = before @ (cid, s) # after"
      and "\<forall>t \<in> snd ` set before. \<not> send_throws env t"
      and "send_throws env s"
  shows "broadcast env m w =
           (Inl (SendFailed s), w\<lparr>trace := trace w @ per_recipient env m (before @ [(cid, s)])\<rparr>)
       \<and> (\<forall>t. t \<notin> snd ` set (before @ [(cid, s)]) \<longrightarrow>
             sent_to t (per_recipient env m (before @ [(cid, s)])) = [])"
proof -
  have "forEach_send env m (before @ (cid, s) # after) w =
          (Inl (SendFailed s), w\<lparr>trace := trace w @ per_recipient env m (before @ [(cid, s)])\<rparr>)"
    using assms(2,3) by (rule forEach_send_stops)
  moreover have "sent_to t (per_recipient env m (before @ [(cid, s)])) = []"
    if "t \<notin> snd ` set (before @ [(cid, s)])" for t
  proof -
    from that have "filter (\<lambda>e. snd e = t) (before @ [(cid, s)]) = []"
      by (auto simp: filter_empty_conv)
    then show ?thesis by (simp only: sent_to_per_recipient list.size replicate.simps)
  qed
  ultimately show ?thesis by (simp add: broadcast_def assms(1))
qed

theorem broadcast_stops_at_throwing_send_witness:
  "DAList.impl_of (connections (registry_of [(''A'', WebSocket 1), (''B'', WebSocket 2), (''C'', WebSocket 3)]))
     = [(''A'', WebSocket 1)] @ (''B'', WebSocket 2) # [(''C'', WebSocket 3)]
 \<and> \<not> send_throws (closed_socket (WebSocket 2)) (WebSocket 1)
 \<and> send_throws (closed_socket (WebSocket 2)) (WebSocket 2)
 \<and> broadcast (closed_socket (WebSocket 2)) info_hi
      (registry_of [(''A'', WebSocket 1), (''B'', WebSocket 2), (''C'', WebSocket 3)]) =
     (Inl (SendFailed (WebSocket 2)),
      (registry_of [(''A'', WebSocket 1), (''B'', WebSocket 2), (''C'', WebSocket 3)])
        \<lparr>trace := [Stringify info_hi, WsSend (WebSocket 1) (stringify_ascii info_hi),
                   Stringify info_hi, WsSend (WebSocket 2) (stringify_ascii info_hi)]\<rparr>)"
proof -
  have h1: "DAList.impl_of (connections (registry_of [(''A'', WebSocket 1), (''B'', WebSocket 2), (''C'', WebSocket 3)]))
     = [(''A'', WebSocket 1)] @ (''B'', WebSocket 2) # [(''C'', WebSocket 3)]"
    by (simp add: registry_of_def initial_def addConnection_def update.rep_eq empty.rep_eq)
  have h2: "\<forall>t \<in> snd ` set [(''A'', WebSocket 1)]. \<not> send_throws (closed_socket (WebSocket 2)) t"
    by (simp add: closed_socket_def healthy_def)
  have h3: "send_throws (closed_socket (WebSocket 2)) (WebSocket 2)"
    by (simp add: closed_socket_def healthy_def)
  show ?thesis
    using h1 h3 broadcast_stops_at_throwing_send [OF h1 h2 h3, of info_hi]
    by (simp add: per_recipient_def registry_of_def initial_def addConnection_def
          closed_socket_def healthy_def)
qed

text \<open>
  C3 as stated fails: with A and B registered and A's socket closed, \<open>broadcast\<close> ends with
  the exception of A's \<open>send\<close> and B's socket is never written to.
\<close>

theorem broadcast_isolates_failure_counterexample:
  "broadcast (closed_socket (WebSocket 1)) info_hi
      (registry_of [(''A'', WebSocket 1), (''B'', WebSocket 2)])
   = (Inl (SendFailed (WebSocket 1)),
      (registry_of [(''A'', WebSocket 1), (''B'', WebSocket 2)])
        \<lparr>trace := [Stringify info_hi, WsSend (WebSocket 1) (stringify_ascii info_hi)]\<rparr>)
 \<and> sent_to (WebSocket 2) (trace (snd (broadcast (closed_socket (WebSocket 1)) info_hi
      (registry_of [(''A'', WebSocket 1), (''B'', WebSocket 2)])))) = []"
  by (simp add: run_defs)

section \<open>Registry laws\<close>

text \<open>
  C4. Registering \<open>c1\<close> under an id and then \<open>c2\<close> under the same id leaves the id mapped
  to \<open>c2\<close>: both calls return normally and the lookup that follows returns \<open>c2\<close>.
\<close>

theorem register_last_write_wins:
  fixes w :: "'n world"
  shows "fst (addConnection cid c1 w) = Inr ()
       \<and> fst (addConnection cid c2 (snd (addConnection cid c1 w))) = Inr ()
       \<and> fst (getConnection cid (snd (addConnection cid c2 (snd (addConnection cid c1 w)))))
           = Inr (Some c2)"
  by (simp add: addConnection_def getConnection_def)

text \<open>
  C5. \<open>removeConnection\<close> never fails; on an id that is not registered it leaves the state
  as it was; and calling it a second time with the same id returns normally and leaves
  the state the first call produced.
\<close>

theorem removeConnection_idempotent:
  fixes w :: "'n world"
  shows "fst (removeConnection cid w) = Inr ()
       \<and> (DAList.lookup (connections w) cid = None \<longrightarrow> snd (removeConnection cid w) = w)
       \<and> removeConnection cid (snd (removeConnection cid w)) = removeConnection cid w"
  by (simp add: removeConnection_def delete_absent delete_twice)

theorem removeConnection_idempotent_witness:
  "DAList.lookup (connections (registry_of [(''A'', WebSocket 1)])) ''B'' = None
 \<and> snd (removeConnection ''B'' (registry_of [(''A'', WebSocket 1)])) = registry_of [(''A'', WebSocket 1)]
 \<and> removeConnection ''A'' (snd (removeConnection ''A'' (registry_of [(''A'', WebSocket 1)])))
     = removeConnection ''A'' (registry_of [(''A'', WebSocket 1)])"
  using removeConnection_idempotent [of "''B''" "registry_of [(''A'', WebSocket 1)] :: string world"]
    removeConnection_idempotent [of "''A''" "registry_of [(''A'', WebSocket 1)] :: string world"]
  by (simp add: registry_of_def initial_def addConnection_def lookup.rep_eq update.rep_eq empty.rep_eq)

section \<open>Unicast\<close>

text \<open>
  C6. For an id that is not registered, \<open>sendToConnection\<close> returns normally and its only
  effect is the log line "No connection found for id: <id>": no socket is written to.
  For a registered id it serializes the message and calls \<open>send\<close> with that text on the
  socket stored under the id, and on no other.
\<close>

theorem sendToConnection_absent_or_present:
  fixes w :: "'n world"
  shows "(DAList.lookup (connections w) cid = None \<longrightarrow>
            sendToConnection env cid m w =
              (Inr (), w\<lparr>trace := trace w @ [ConsoleLog [''No connection found for id: '' @ cid]]\<rparr>))
       \<and> (\<forall>s. DAList.lookup (connections w) cid = Some s \<longrightarrow>
            sendToConnection env cid m w =
              (if send_throws env s then Inl (SendFailed s) else Inr (),
               w\<lparr>trace := trace w @ [Stringify m, WsSend s (JSON_stringify env m)]\<rparr>))"
  by (simp add: sendToConnection_def getConnection_def emit_def send_stringified_def Let_def)

theorem sendToConnection_absent_or_present_witness:
  "DAList.lookup (connections (registry_of [(''A'', WebSocket 1)])) ''B'' = None
 \<and> sendToConnection healthy ''B'' info_hi (registry_of [(''A'', WebSocket 1)]) =
     (Inr (), (registry_of [(''A'', WebSocket 1)])
        \<lparr>trace := [ConsoleLog [''No connection found for id: B'']]\<rparr>)
 \<and> DAList.lookup (connections (registry_of [(''A'', WebSocket 1)])) ''A'' = Some (WebSocket 1)
 \<and> sendToConnection healthy ''A'' info_hi (registry_of [(''A'', WebSocket 1)]) =
     (Inr (), (registry_of [(''A'', WebSocket 1)])
        \<lparr>trace := [Stringify info_hi, WsSend (WebSocket 1) (stringify_ascii info_hi)]\<rparr>)"
  using sendToConnection_absent_or_present [of "registry_of [(''A'', WebSocket 1)]" "''B''" healthy info_hi]
    sendToConnection_absent_or_present [of "registry_of [(''A'', WebSocket 1)]" "''A''" healthy info_hi]
  by (simp add: registry_of_def initial_def addConnection_def lookup.rep_eq update.rep_eq
        empty.rep_eq healthy_def)

section \<open>The user-create scenario\<close>

text \<open>
  The scenario \<open>{type:"user", id:"42", data:{action:"create", payload:{name:"Ann"}}}\<close>
  on any state: \<open>userService.createUser("42", {name:"Ann"})\<close> is called and, if that call
  returns, \<open>{type:"user", id:"42", data:{action:"user_updated", payload:{name:"Ann"}}}\<close> is
  broadcast; provided no \<open>send\<close> throws, every entry of the map is written once, so a
  socket is written once for each id it is registered under.
\<close>

lemma create_ann_broadcast:
  fixes w :: "'n world"
  assumes "\<not> service_throws env (CreateUser ''42'' ann)"
      and "\<forall>t \<in> snd ` set (DAList.impl_of (connections w)). \<not> send_throws env t"
  shows "message env sender create_ann w =
           (Inr (), w\<lparr>trace := trace w @ Service (CreateUser ''42'' ann)
                        # per_recipient env user_updated_ann (DAList.impl_of (connections w))\<rparr>)
       \<and> sent_to sender (per_recipient env user_updated_ann (DAList.impl_of (connections w))) =
           replicate (length (filter (\<lambda>e. snd e = sender) (DAList.impl_of (connections w))))
             (JSON_stringify env user_updated_ann)"
proof -
  let ?w1 = "emit (Service (CreateUser ''42'' ann)) w"
  have conns: "connections ?w1 = connections w" by (simp add: emit_def)
  have "message env sender create_ann w = broadcast env user_updated_ann ?w1"
    using handleUserMessage_create [OF assms(1)]
    by (simp add: message_def create_ann_def user_updated_ann_def event_envelope_def)
  also have "\<dots> = (Inr (), ?w1\<lparr>trace := trace ?w1
      @ per_recipient env user_updated_ann (DAList.impl_of (connections ?w1))\<rparr>)"
    using assms(2) unfolding broadcast_def conns by (rule forEach_send_ok)
  finally show ?thesis
    by (simp add: emit_def sent_to_per_recipient)
qed

lemma create_ann_broadcast_registered_sender:
  "\<not> service_throws healthy (CreateUser ''42'' ann)
 \<and> \<not> send_throws healthy (WebSocket 1) \<and> \<not> send_throws healthy (WebSocket 2)
 \<and> message healthy (WebSocket 1) create_ann (registry_of [(''A'', WebSocket 1), (''B'', WebSocket 2)]) =
     (Inr (), (registry_of [(''A'', WebSocket 1), (''B'', WebSocket 2)])
        \<lparr>trace := [Service (CreateUser ''42'' ann),
                   Stringify user_updated_ann, WsSend (WebSocket 1) (stringify_ascii user_updated_ann),
                   Stringify user_updated_ann, WsSend (WebSocket 2) (stringify_ascii user_updated_ann)]\<rparr>)"
proof -
  have h1: "\<not> service_throws healthy (CreateUser ''42'' ann)"
    by (simp add: healthy_def)
  have h2: "\<forall>t \<in> snd ` set (DAList.impl_of (connections
        (registry_of [(''A'', WebSocket 1), (''B'', WebSocket 2)]))). \<not> send_throws healthy t"
    by (simp add: healthy_def)
  show ?thesis
    using h1 create_ann_broadcast [OF h1 h2, of "WebSocket 1"]
    by (simp add: registry_of_def initial_def addConnection_def update.rep_eq empty.rep_eq
          per_recipient_def healthy_def)
qed

text \<open>
  C7 does not hold of the code. websocket.js imports \<open>addConnection\<close> and never calls it:
  when a client connects to a freshly started server and sends the envelope, \<open>open\<close> has
  registered nothing, the service is called, and the broadcast writes to no socket, the
  sender's included. With only B registered and the envelope sent from another socket,
  B is written the result and the sender is not.
\<close>

theorem create_ann_sender_receives_nothing:
  "fst (open_ws healthy (WebSocket 1) initial) = Inr ()
 \<and> DAList.impl_of (connections (snd (open_ws healthy (WebSocket 1) initial))) = []
 \<and> message healthy (WebSocket 1) create_ann (snd (open_ws healthy (WebSocket 1) initial))
     = (Inr (), initial\<lparr>trace :=
          [ConsoleLog [''Client connected''],
           WsSendObject (WebSocket 1)
             (Object [(''type'', String ''info''), (''message'', String ''Connection established'')]),
           Service (CreateUser ''42'' ann)]\<rparr>)
 \<and> sent_to (WebSocket 1) (trace (snd (message healthy (WebSocket 1) create_ann
        (registry_of [(''B'', WebSocket 2)])))) = []
 \<and> sent_to (WebSocket 2) (trace (snd (message healthy (WebSocket 1) create_ann
        (registry_of [(''B'', WebSocket 2)])))) = [stringify_ascii user_updated_ann]"
  by (simp add: run_defs open_ws_def message_def create_ann_def handleUserMessage_def
        and_then_def evaluated_def call_service_def ann_def event_envelope_def
        user_updated_ann_def)

section \<open>The organization routes\<close>

lemma delete_reply_never_message_object:
  "post_organization_delete model oid \<noteq>
     Inr \<lparr>status = 400, body = MessageObject ''Id not found''\<rparr>"
  by (simp add: post_organization_delete_def split: sum.split option.split)

text \<open>
  C8 does not hold of the code. On an empty collection, \<open>POST /organizations/delete\<close> with
  the id "42" (not an ObjectId: the query rejects, the service returns \<open>null\<close>) answers 400
  with the bare string "Id not found", not the object \<open>{message: "Id not found"}\<close> that
  \<open>GET /organizations/:id\<close> answers; and with a well-formed id that no document has it
  answers 200 "Record Deleted", since the result object of \<open>deleteOne\<close> is truthy.
\<close>

theorem delete_unknown_id_replies:
  "post_organization_delete (mongoose_over ([] :: (string \<times> unit) list)) ''42''
     = Inr \<lparr>status = 400, body = Text ''Id not found''\<rparr>
 \<and> post_organization_delete (mongoose_over ([] :: (string \<times> unit) list)) ''000000000000000000000000''
     = Inr \<lparr>status = 200,
            body = MessageData ''Record Deleted'' \<lparr>acknowledged = True, deletedCount = 0\<rparr>\<rparr>"
  by (simp add: post_organization_delete_def deleteOrganizationById_def mongoose_over_def
        is_object_id_def)

text \<open>
  C9. When \<open>getOrganizationById\<close> yields \<open>null\<close>, \<open>GET /organizations/:id\<close> answers with
  status 400 and the body \<open>{message: "Id not found"}\<close>; when it yields a document, the
  route answers with that document.
\<close>

theorem get_by_id_not_found_or_document:
  "(getOrganizationById model oid = Inr None \<longrightarrow>
      get_organization_by_id model oid =
        Inr \<lparr>status = 400, body = MessageObject ''Id not found''\<rparr>)
 \<and> (\<forall>d. getOrganizationById model oid = Inr (Some d) \<longrightarrow>
      get_organization_by_id model oid = Inr \<lparr>status = 200, body = Document d\<rparr>)"
  by (simp add: get_organization_by_id_def)

theorem get_by_id_not_found_or_document_witness:
  "getOrganizationById (mongoose_over [(''65f000000000000000000001'', ''Acme'')])
     ''65f000000000000000000002'' = Inr None
 \<and> get_organization_by_id (mongoose_over [(''65f000000000000000000001'', ''Acme'')])
     ''65f000000000000000000002'' = Inr \<lparr>status = 400, body = MessageObject ''Id not found''\<rparr>
 \<and> getOrganizationById (mongoose_over [(''65f000000000000000000001'', ''Acme'')])
     ''65f000000000000000000001'' = Inr (Some ''Acme'')
 \<and> get_organization_by_id (mongoose_over [(''65f000000000000000000001'', ''Acme'')])
     ''65f000000000000000000001'' = Inr \<lparr>status = 200, body = Document ''Acme''\<rparr>"
  using get_by_id_not_found_or_document
      [of "mongoose_over [(''65f000000000000000000001'', ''Acme'')]" "''65f000000000000000000002''"]
    get_by_id_not_found_or_document
      [of "mongoose_over [(''65f000000000000000000001'', ''Acme'')]" "''65f000000000000000000001''"]
  by (simp add: getOrganizationById_def mongoose_over_def is_object_id_def)

text \<open>
  C10. \<open>getOrganizationById\<close> and \<open>deleteOrganizationById\<close> always return a value: whatever
  the storage call does, the service does not throw, and when the storage call rejects
  (a malformed id, for one) the value returned is \<open>null\<close>.
\<close>

theorem services_never_throw:
  "(\<exists>r. getOrganizationById model oid = Inr r)
 \<and> (\<exists>r. deleteOrganizationById model oid = Inr r)
 \<and> (\<forall>e. findById model oid = Inl e \<longrightarrow> getOrganizationById model oid = Inr None)
 \<and> (\<forall>e. deleteOne model oid = Inl e \<longrightarrow> deleteOrganizationById model oid = Inr None)"
  by (simp add: getOrganizationById_def deleteOrganizationById_def split: sum.split)

theorem services_never_throw_witness:
  "findById (mongoose_over ([] :: (string \<times> unit) list)) ''not-an-id'' = Inl (CastError ''not-an-id'')
 \<and> getOrganizationById (mongoose_over ([] :: (string \<times> unit) list)) ''not-an-id'' = Inr None
 \<and> deleteOne (mongoose_over ([] :: (string \<times> unit) list)) ''not-an-id'' = Inl (CastError ''not-an-id'')
 \<and> deleteOrganizationById (mongoose_over ([] :: (string \<times> unit) list)) ''not-an-id'' = Inr None"
proof -
  have f: "findById (mongoose_over ([] :: (string \<times> unit) list)) ''not-an-id'' = Inl (CastError ''not-an-id'')"
    by (simp add: mongoose_over_def is_object_id_def)
  have d: "deleteOne (mongoose_over ([] :: (string \<times> unit) list)) ''not-an-id'' = Inl (CastError ''not-an-id'')"
    by (simp add: mongoose_over_def is_object_id_def)
  show ?thesis
    using f d services_never_throw [of "mongoose_over ([] :: (string \<times> unit) list)" "''not-an-id''"]
    by blast
qed

end
